theory Spec2Isabelle
  imports Main "HOL-Library.Word"
begin

section \<open>The bridge ioctl stubs of ocaml/netdev/bridge_stubs.c\<close>

text \<open>
  The file holds four OCaml primitives written in C: \<open>stub_bridge_add\<close>,
  \<open>stub_bridge_del\<close>, \<open>stub_bridge_intf_add\<close> and \<open>stub_bridge_intf_del\<close>
  (createBridge, destroyBridge, attachInterface and detachInterface of the
  specification). Each one calls the operating system: \<open>ioctl\<close> on the caller's
  socket and, for the last two, \<open>if_nametoindex\<close> beforehand.

  The operating system is not part of the program. It is a parameter of the model (a
  record of functions over a kernel state of any type \<open>'k\<close>), and every call the stubs
  make is appended to a log, so that what is called, with what and in which order can
  be stated.
\<close>

subsection \<open>Values of C and OCaml\<close>

definition NUL :: char where
  "NUL = CHR 0x00"

text \<open>\<open>IFNAMSIZ\<close> of \<open><net/if.h>\<close>: 16 on Linux.\<close>

definition IFNAMSIZ :: nat where
  "IFNAMSIZ = 16"

text \<open>
  An OCaml string is a sequence of bytes of any content, zero bytes included.
  \<open>String_val\<close> is the address of its first byte; the model identifies the address
  with the bytes stored there. The OCaml runtime stores a zero byte after the last
  byte of every string, so the C string that starts at \<open>String_val v\<close> is the bytes
  of \<open>v\<close> before its first zero byte, or all of \<open>v\<close> when it has none: \<open>c_str\<close>.
\<close>

definition String_val :: "string \<Rightarrow> string" where
  "String_val v = v"

definition c_str :: "string \<Rightarrow> string" where
  "c_str p = takeWhile (\<lambda>c. c \<noteq> NUL) p"

text \<open>
  A descriptor is an OCaml integer that wraps the C \<open>int\<close> the socket was opened
  with; \<open>Int_val\<close> gives that integer back.
\<close>

definition Int_val :: "int \<Rightarrow> int" where
  "Int_val v = v"

definition Val_unit :: unit where
  "Val_unit = ()"

text \<open>
  \<open>caml_failwith msg\<close> raises the OCaml exception \<open>Failure msg\<close> and does not
  return. \<open>IoctlError\<close> is what \<open>CHECK_IOCTL\<close> raises (below).
\<close>

datatype exn = Failure string | IoctlError string string

definition caml_failwith :: "string \<Rightarrow> exn + 'a" where
  "caml_failwith msg = Inl (Failure msg)"

subsection \<open>The operating system\<close>

text \<open>
  The four request codes of \<open><linux/sockios.h>\<close>, and \<open>struct ifreq\<close> of
  \<open><net/if.h>\<close>: the name, an array of \<open>IFNAMSIZ\<close> bytes, and of the union that
  follows it the one member the stubs set, the \<open>int\<close> \<open>ifr_ifindex\<close>.
\<close>

datatype ioctl_req = SIOCBRADDBR | SIOCBRDELBR | SIOCBRADDIF | SIOCBRDELIF

record ifreq =
  ifr_name :: string
  ifr_ifindex :: "32 word"

text \<open>The third argument of \<open>ioctl\<close>: the address of a string or of a \<open>struct ifreq\<close>.\<close>

datatype ioctl_arg = Arg_string string | Arg_ifreq ifreq

datatype syscall =
  Call_if_nametoindex string
| Call_ioctl int ioctl_req ioctl_arg

text \<open>
  \<open>if_nametoindex\<close> reads the kernel's interface table and returns an
  \<open>unsigned int\<close>, 0 when no interface has the name. \<open>ioctl\<close> returns its result
  (\<open>-1\<close> on failure), the value it leaves in \<open>errno\<close>, and the kernel state after
  the request. \<open>strerror\<close> is the text of an error number.
\<close>

record 'k os =
  if_nametoindex :: "'k \<Rightarrow> string \<Rightarrow> 32 word"
  ioctl :: "'k \<Rightarrow> int \<Rightarrow> ioctl_req \<Rightarrow> ioctl_arg \<Rightarrow> int \<times> int \<times> 'k"
  strerror :: "int \<Rightarrow> string"

text \<open>The state the stubs run in: the kernel and the log of the calls made so far.\<close>

record 'k world =
  kernel :: 'k
  calls :: "syscall list"

definition sys_if_nametoindex :: "'k os \<Rightarrow> string \<Rightarrow> 'k world \<Rightarrow> 32 word \<times> 'k world" where
  "sys_if_nametoindex os p w =
     (if_nametoindex os (kernel w) p, w\<lparr>calls := calls w @ [Call_if_nametoindex p]\<rparr>)"

definition sys_ioctl ::
  "'k os \<Rightarrow> int \<Rightarrow> ioctl_req \<Rightarrow> ioctl_arg \<Rightarrow> 'k world \<Rightarrow> (int \<times> int) \<times> 'k world" where
  "sys_ioctl os fd req arg w =
     (case ioctl os (kernel w) fd req arg of
        (err, eno, k') \<Rightarrow>
          ((err, eno), \<lparr>kernel = k', calls = calls w @ [Call_ioctl fd req arg]\<rparr>))"

subsection \<open>The C library: memset and strncpy\<close>

text \<open>
  \<open>memset buf c n\<close> writes \<open>c\<close> to the first \<open>n\<close> bytes of \<open>buf\<close>.
  \<open>strncpy dest src n\<close> writes exactly \<open>n\<close> bytes to \<open>dest\<close>: the bytes of the
  C string at \<open>src\<close>, at most \<open>n\<close> of them, then zero bytes up to \<open>n\<close>. It writes
  no zero byte when the C string has \<open>n\<close> bytes or more.
\<close>

definition memset :: "string \<Rightarrow> char \<Rightarrow> nat \<Rightarrow> string" where
  "memset buf c n = replicate n c @ drop n buf"

definition strncpy :: "string \<Rightarrow> string \<Rightarrow> nat \<Rightarrow> string" where
  "strncpy dest src n =
     (let s = take n (c_str src)
      in s @ replicate (n - length s) NUL @ drop n dest)"

subsection \<open>The macro CHECK_IOCTL\<close>

text \<open>
  Modelled from the spec: the macro \<open>CHECK_IOCTL(err, S)\<close> of \<open>netdev.h\<close>, which
  the stubs include and which is not among the sources. The specification: a failure
  is "raised when the underlying kernel request returns a failure indication; carries
  the operation label and the OS-level error description", and otherwise the stub goes
  on to return. The failure indication of \<open>ioctl\<close> is a negative result; the error
  description is \<open>strerror\<close> of the \<open>errno\<close> that \<open>ioctl\<close> left.
\<close>

definition CHECK_IOCTL :: "'k os \<Rightarrow> int \<Rightarrow> int \<Rightarrow> string \<Rightarrow> exn + unit" where
  "CHECK_IOCTL os eno err S =
     (if err < 0 then Inl (IoctlError S (strerror os eno)) else Inr ())"

subsection \<open>The four stubs\<close>

definition stub_bridge_add ::
  "'k os \<Rightarrow> int \<Rightarrow> string \<Rightarrow> 'k world \<Rightarrow> (exn + unit) \<times> 'k world" where
  "stub_bridge_add os fd name w =
     (case sys_ioctl os (Int_val fd) SIOCBRADDBR (Arg_string (String_val name)) w of
        ((err, eno), w') \<Rightarrow>
          (case CHECK_IOCTL os eno err ''bridge add'' of
             Inl e \<Rightarrow> (Inl e, w')
           | Inr _ \<Rightarrow> (Inr Val_unit, w')))"

definition stub_bridge_del ::
  "'k os \<Rightarrow> int \<Rightarrow> string \<Rightarrow> 'k world \<Rightarrow> (exn + unit) \<times> 'k world" where
  "stub_bridge_del os fd name w =
     (case sys_ioctl os (Int_val fd) SIOCBRDELBR (Arg_string (String_val name)) w of
        ((err, eno), w') \<Rightarrow>
          (case CHECK_IOCTL os eno err ''bridge del'' of
             Inl e \<Rightarrow> (Inl e, w')
           | Inr _ \<Rightarrow> (Inr Val_unit, w')))"

text \<open>
  The local \<open>struct ifreq ifr\<close> is not initialised: \<open>ifr0\<close> is whatever the stack
  holds when the stub is entered.
\<close>

definition stub_bridge_intf_add ::
  "'k os \<Rightarrow> ifreq \<Rightarrow> int \<Rightarrow> string \<Rightarrow> string \<Rightarrow> 'k world \<Rightarrow> (exn + unit) \<times> 'k world" where
  "stub_bridge_intf_add os ifr0 fd name intf w =
     (case sys_if_nametoindex os (String_val intf) w of
        (ifindex, w1) \<Rightarrow>
          if ifindex = 0 then (caml_failwith ''Device_not_found'', w1)
          else
            let ifr1 = ifr0\<lparr>ifr_name := memset (ifr_name ifr0) NUL IFNAMSIZ\<rparr>;
                ifr2 = ifr1\<lparr>ifr_name := strncpy (ifr_name ifr1) (String_val name) IFNAMSIZ\<rparr>;
                ifr3 = ifr2\<lparr>ifr_ifindex := ifindex\<rparr>
            in case sys_ioctl os (Int_val fd) SIOCBRADDIF (Arg_ifreq ifr3) w1 of
                 ((err, eno), w2) \<Rightarrow>
                   (case CHECK_IOCTL os eno err ''bridge intf add'' of
                      Inl e \<Rightarrow> (Inl e, w2)
                    | Inr _ \<Rightarrow> (Inr Val_unit, w2)))"

definition stub_bridge_intf_del ::
  "'k os \<Rightarrow> ifreq \<Rightarrow> int \<Rightarrow> string \<Rightarrow> string \<Rightarrow> 'k world \<Rightarrow> (exn + unit) \<times> 'k world" where
  "stub_bridge_intf_del os ifr0 fd name intf w =
     (case sys_if_nametoindex os (String_val intf) w of
        (ifindex, w1) \<Rightarrow>
          if ifindex = 0 then (caml_failwith ''Device_not_found'', w1)
          else
            let ifr1 = ifr0\<lparr>ifr_name := memset (ifr_name ifr0) NUL IFNAMSIZ\<rparr>;
                ifr2 = ifr1\<lparr>ifr_name := strncpy (ifr_name ifr1) (String_val name) IFNAMSIZ\<rparr>;
                ifr3 = ifr2\<lparr>ifr_ifindex := ifindex\<rparr>
            in case sys_ioctl os (Int_val fd) SIOCBRDELIF (Arg_ifreq ifr3) w1 of
                 ((err, eno), w2) \<Rightarrow>
                   (case CHECK_IOCTL os eno err ''bridge intf del'' of
                      Inl e \<Rightarrow> (Inl e, w2)
                    | Inr _ \<Rightarrow> (Inr Val_unit, w2)))"

subsection \<open>Reading the log\<close>

fun is_ioctl :: "syscall \<Rightarrow> bool" where
  "is_ioctl (Call_ioctl _ _ _) = True"
| "is_ioctl (Call_if_nametoindex _) = False"

text \<open>The calls made between the state \<open>w\<close> and the later state \<open>w'\<close>.\<close>

definition calls_since :: "'k world \<Rightarrow> 'k world \<Rightarrow> syscall list" where
  "calls_since w w' = drop (length (calls w)) (calls w')"

text \<open>The \<open>struct ifreq\<close> records that a list of calls hands to \<open>ioctl\<close>.\<close>

fun ifreqs_passed :: "syscall list \<Rightarrow> ifreq list" where
  "ifreqs_passed [] = []"
| "ifreqs_passed (Call_ioctl fd req (Arg_ifreq r) # cs) = r # ifreqs_passed cs"
| "ifreqs_passed (c # cs) = ifreqs_passed cs"

text \<open>
  Whether the kernel, in state \<open>k\<close>, fails the request of a logged call, and the
  \<open>errno\<close> it leaves. No stub changes the kernel before its \<open>ioctl\<close>, so the
  state the request meets is the one the stub was entered in.
\<close>

definition ioctl_failed :: "'k os \<Rightarrow> 'k \<Rightarrow> syscall \<Rightarrow> bool" where
  "ioctl_failed os k c =
     (case c of
        Call_ioctl fd req arg \<Rightarrow> fst (ioctl os k fd req arg) < 0
      | Call_if_nametoindex _ \<Rightarrow> False)"

definition ioctl_errno :: "'k os \<Rightarrow> 'k \<Rightarrow> syscall \<Rightarrow> int" where
  "ioctl_errno os k c =
     (case c of
        Call_ioctl fd req arg \<Rightarrow> fst (snd (ioctl os k fd req arg))
      | Call_if_nametoindex _ \<Rightarrow> 0)"

text \<open>
  An outcome \<open>rw\<close> of an operation entered in state \<open>w\<close> reports its kernel
  request under the label \<open>S\<close>: a request that failed is raised as \<open>IoctlError\<close>
  with \<open>S\<close> and the text of its \<open>errno\<close>, and the operation returns unit exactly
  when it issued a request and the request did not fail.
\<close>

definition reports_ioctl ::
  "'k os \<Rightarrow> 'k world \<Rightarrow> string \<Rightarrow> (exn + unit) \<times> 'k world \<Rightarrow> bool" where
  "reports_ioctl os w S rw =
     ((\<forall>c \<in> set (calls_since w (snd rw)).
         ioctl_failed os (kernel w) c \<longrightarrow>
         fst rw = Inl (IoctlError S (strerror os (ioctl_errno os (kernel w) c))))
    \<and> ((fst rw = Inr ()) =
         (\<exists>c \<in> set (calls_since w (snd rw)). is_ioctl c \<and> \<not> ioctl_failed os (kernel w) c)))"

subsection \<open>Attach and detach in the words of the specification\<close>

text \<open>
  Section 4.1 of the specification describes attachInterface and says of
  detachInterface that it has the identical resolution and request-building logic: the
  interface name is resolved to an index; index zero fails with DeviceNotFound;
  otherwise a record is built of the bridge name, truncated to \<open>IFNAMSIZ\<close> bytes and
  zero-padded to \<open>IFNAMSIZ\<close>, and the index; the request is issued and a rejection is
  an IoctlError. The request code and the label are the parameters.
\<close>

definition spec_intf_operation ::
  "ioctl_req \<Rightarrow> string \<Rightarrow> 'k os \<Rightarrow> int \<Rightarrow> string \<Rightarrow> string \<Rightarrow> 'k world
     \<Rightarrow> (exn + unit) \<times> 'k world" where
  "spec_intf_operation req label os socket bridgeName interfaceName w =
     (let idx = if_nametoindex os (kernel w) interfaceName;
          w1 = \<lparr>kernel = kernel w, calls = calls w @ [Call_if_nametoindex interfaceName]\<rparr>
      in if idx = 0 then (Inl (Failure ''Device_not_found''), w1)
         else
           let shown = take IFNAMSIZ (c_str bridgeName);
               request = \<lparr>ifr_name = shown @ replicate (IFNAMSIZ - length shown) NUL,
                          ifr_ifindex = idx\<rparr>
           in case ioctl os (kernel w) socket req (Arg_ifreq request) of
                (err, eno, k') \<Rightarrow>
                  (if err < 0 then Inl (IoctlError label (strerror os eno)) else Inr (),
                   \<lparr>kernel = k', calls = calls w1 @ [Call_ioctl socket req (Arg_ifreq request)]\<rparr>))"

subsection \<open>A simulated kernel\<close>

text \<open>
  A small kernel to run the stubs on: its state is the list of the bridges that
  exist, it has the interfaces \<open>lo\<close> (index 1) and \<open>eth0\<close> (index 2), and it
  serves requests on descriptor 3 only.
\<close>

definition sim_if_nametoindex :: "string list \<Rightarrow> string \<Rightarrow> 32 word" where
  "sim_if_nametoindex k p =
     (if c_str p = ''lo'' then 1 else if c_str p = ''eth0'' then 2 else 0)"

definition sim_ioctl ::
  "string list \<Rightarrow> int \<Rightarrow> ioctl_req \<Rightarrow> ioctl_arg \<Rightarrow> int \<times> int \<times> string list" where
  "sim_ioctl k fd req arg =
     (if fd \<noteq> 3 then (- 1, 9, k)
      else case (req, arg) of
        (SIOCBRADDBR, Arg_string p) \<Rightarrow>
          if c_str p \<in> set k then (- 1, 17, k) else (0, 0, c_str p # k)
      | (SIOCBRDELBR, Arg_string p) \<Rightarrow>
          if c_str p \<in> set k then (0, 0, removeAll (c_str p) k) else (- 1, 6, k)
      | (SIOCBRADDIF, Arg_ifreq r) \<Rightarrow>
          if c_str (ifr_name r) \<in> set k then (0, 0, k) else (- 1, 19, k)
      | (SIOCBRDELIF, Arg_ifreq r) \<Rightarrow>
          if c_str (ifr_name r) \<in> set k then (0, 0, k) else (- 1, 19, k)
      | _ \<Rightarrow> (- 1, 14, k))"

definition sim_strerror :: "int \<Rightarrow> string" where
  "sim_strerror e =
     (if e = 6 then ''No such device or address''
      else if e = 9 then ''Bad file descriptor''
      else if e = 14 then ''Bad address''
      else if e = 17 then ''File exists''
      else if e = 19 then ''No such device''
      else ''Unknown error'')"

definition sim_os :: "string list os" where
  "sim_os = \<lparr>if_nametoindex = sim_if_nametoindex, ioctl = sim_ioctl, strerror = sim_strerror\<rparr>"

text \<open>A state with the bridge \<open>br0\<close> and an empty log, and some stack contents.\<close>

definition sim_world :: "string list world" where
  "sim_world = \<lparr>kernel = [''br0''], calls = []\<rparr>"

definition sim_stack :: ifreq where
  "sim_stack = \<lparr>ifr_name = replicate 16 CHR ''x'', ifr_ifindex = 7\<rparr>"

section \<open>Properties\<close>

subsection \<open>Helper facts\<close>

lemma calls_since_append: "calls w' = calls w @ cs \<Longrightarrow> calls_since w w' = cs"
  by (simp add: calls_since_def)

lemma memset_full: "length buf = n \<Longrightarrow> memset buf c n = replicate n c"
  by (simp add: memset_def)

lemma strncpy_length: "length dest = n \<Longrightarrow> length (strncpy dest src n) = n"
  by (simp add: strncpy_def Let_def)

lemma strncpy_ignores_dest:
  "length dest = n \<Longrightarrow> length dest' = n \<Longrightarrow> strncpy dest src n = strncpy dest' src n"
  by (simp add: strncpy_def)

lemma strncpy_short:
  "length (c_str src) < n \<Longrightarrow> length dest = n \<Longrightarrow>
   strncpy dest src n = c_str src @ replicate (n - length (c_str src)) NUL"
  by (simp add: strncpy_def Let_def)

lemma take_c_str: "n \<le> length (c_str src) \<Longrightarrow> take n (c_str src) = take n src"
proof -
  assume n: "n \<le> length (c_str src)"
  have "c_str src = take (length (c_str src)) src"
    unfolding c_str_def by (rule takeWhile_eq_take)
  then have "take n (c_str src) = take n (take (length (c_str src)) src)"
    by simp
  also have "\<dots> = take n src"
    using n by (simp add: min_def)
  finally show ?thesis .
qed

lemma c_str_no_NUL: "NUL \<notin> set (c_str src)"
  by (auto simp: c_str_def dest: set_takeWhileD)

lemma strncpy_long:
  "n \<le> length (c_str src) \<Longrightarrow> length dest = n \<Longrightarrow> strncpy dest src n = take n src"
proof -
  assume n: "n \<le> length (c_str src)" and d: "length dest = n"
  have "length (c_str src) \<le> length src"
    unfolding c_str_def by (rule length_takeWhile_le)
  with n have "n \<le> length src" by simp
  with n d show ?thesis
    by (simp add: strncpy_def Let_def take_c_str)
qed

lemma take_c_str_no_NUL: "NUL \<notin> set (take n (c_str src))"
  using c_str_no_NUL [of src] by (auto dest: in_set_takeD)

lemma c_str_id: "NUL \<notin> set v \<Longrightarrow> c_str (String_val v) = v"
  by (auto simp: c_str_def String_val_def takeWhile_eq_all_conv)

lemma intf_add_resolved:
  assumes "if_nametoindex os (kernel w) (String_val intf) \<noteq> 0"
  shows "stub_bridge_intf_add os ifr0 fd name intf w =
    (case ioctl os (kernel w) (Int_val fd) SIOCBRADDIF
            (Arg_ifreq (ifr0\<lparr>ifr_name := strncpy (memset (ifr_name ifr0) NUL IFNAMSIZ) (String_val name) IFNAMSIZ,
                          ifr_ifindex := if_nametoindex os (kernel w) (String_val intf)\<rparr>)) of
       (err, eno, k') \<Rightarrow>
         (if err < 0 then Inl (IoctlError ''bridge intf add'' (strerror os eno)) else Inr (),
          \<lparr>kernel = k',
           calls = calls w @ [Call_if_nametoindex (String_val intf),
             Call_ioctl (Int_val fd) SIOCBRADDIF
              (Arg_ifreq (ifr0\<lparr>ifr_name := strncpy (memset (ifr_name ifr0) NUL IFNAMSIZ) (String_val name) IFNAMSIZ,
                          ifr_ifindex := if_nametoindex os (kernel w) (String_val intf)\<rparr>))]\<rparr>))"
  using assms
  by (simp add: stub_bridge_intf_add_def sys_if_nametoindex_def sys_ioctl_def CHECK_IOCTL_def
      Val_unit_def Let_def split: prod.splits)


lemma intf_del_resolved:
  assumes "if_nametoindex os (kernel w) (String_val intf) \<noteq> 0"
  shows "stub_bridge_intf_del os ifr0 fd name intf w =
    (case ioctl os (kernel w) (Int_val fd) SIOCBRDELIF
            (Arg_ifreq (ifr0\<lparr>ifr_name := strncpy (memset (ifr_name ifr0) NUL IFNAMSIZ) (String_val name) IFNAMSIZ,
                          ifr_ifindex := if_nametoindex os (kernel w) (String_val intf)\<rparr>)) of
       (err, eno, k') \<Rightarrow>
         (if err < 0 then Inl (IoctlError ''bridge intf del'' (strerror os eno)) else Inr (),
          \<lparr>kernel = k',
           calls = calls w @ [Call_if_nametoindex (String_val intf),
             Call_ioctl (Int_val fd) SIOCBRDELIF
              (Arg_ifreq (ifr0\<lparr>ifr_name := strncpy (memset (ifr_name ifr0) NUL IFNAMSIZ) (String_val name) IFNAMSIZ,
                          ifr_ifindex := if_nametoindex os (kernel w) (String_val intf)\<rparr>))]\<rparr>))"
  using assms
  by (simp add: stub_bridge_intf_del_def sys_if_nametoindex_def sys_ioctl_def CHECK_IOCTL_def
      Val_unit_def Let_def split: prod.splits)

lemma ifreq_update_all:
  "(r :: ifreq)\<lparr>ifr_name := a, ifr_ifindex := b\<rparr> = \<lparr>ifr_name = a, ifr_ifindex = b\<rparr>"
  by (cases r) simp

lemma intf_add_calls:
  assumes "if_nametoindex os (kernel w) (String_val intf) \<noteq> 0"
    and "length (ifr_name ifr0) = IFNAMSIZ"
  shows "calls_since w (snd (stub_bridge_intf_add os ifr0 fd name intf w)) =
       [Call_if_nametoindex (String_val intf),
        Call_ioctl (Int_val fd) SIOCBRADDIF (Arg_ifreq
          \<lparr>ifr_name = strncpy (replicate IFNAMSIZ NUL) (String_val name) IFNAMSIZ,
           ifr_ifindex = if_nametoindex os (kernel w) (String_val intf)\<rparr>)]"
  using assms(2)
  by (simp add: intf_add_resolved [OF assms(1)] calls_since_def memset_full ifreq_update_all
      split: prod.splits)

lemma intf_del_calls:
  assumes "if_nametoindex os (kernel w) (String_val intf) \<noteq> 0"
    and "length (ifr_name ifr0) = IFNAMSIZ"
  shows "calls_since w (snd (stub_bridge_intf_del os ifr0 fd name intf w)) =
       [Call_if_nametoindex (String_val intf),
        Call_ioctl (Int_val fd) SIOCBRDELIF (Arg_ifreq
          \<lparr>ifr_name = strncpy (replicate IFNAMSIZ NUL) (String_val name) IFNAMSIZ,
           ifr_ifindex = if_nametoindex os (kernel w) (String_val intf)\<rparr>)]"
  using assms(2)
  by (simp add: intf_del_resolved [OF assms(1)] calls_since_def memset_full ifreq_update_all
      split: prod.splits)

lemmas sim_defs = sim_os_def sim_if_nametoindex_def sim_ioctl_def sim_strerror_def
  sim_world_def sim_stack_def c_str_def NUL_def String_val_def Int_val_def IFNAMSIZ_def

lemma bridge_add_run:
  "stub_bridge_add os fd name w =
    (case ioctl os (kernel w) (Int_val fd) SIOCBRADDBR (Arg_string (String_val name)) of
       (err, eno, k') \<Rightarrow>
         (if err < 0 then Inl (IoctlError ''bridge add'' (strerror os eno)) else Inr (),
          \<lparr>kernel = k',
           calls = calls w @ [Call_ioctl (Int_val fd) SIOCBRADDBR (Arg_string (String_val name))]\<rparr>))"
  by (simp add: stub_bridge_add_def sys_ioctl_def CHECK_IOCTL_def Val_unit_def split: prod.splits)

lemma bridge_del_run:
  "stub_bridge_del os fd name w =
    (case ioctl os (kernel w) (Int_val fd) SIOCBRDELBR (Arg_string (String_val name)) of
       (err, eno, k') \<Rightarrow>
         (if err < 0 then Inl (IoctlError ''bridge del'' (strerror os eno)) else Inr (),
          \<lparr>kernel = k',
           calls = calls w @ [Call_ioctl (Int_val fd) SIOCBRDELBR (Arg_string (String_val name))]\<rparr>))"
  by (simp add: stub_bridge_del_def sys_ioctl_def CHECK_IOCTL_def Val_unit_def split: prod.splits)

lemma intf_add_unresolved:
  "if_nametoindex os (kernel w) (String_val intf) = 0 \<Longrightarrow>
   stub_bridge_intf_add os ifr0 fd name intf w =
     (Inl (Failure ''Device_not_found''),
      w\<lparr>calls := calls w @ [Call_if_nametoindex (String_val intf)]\<rparr>)"
  by (simp add: stub_bridge_intf_add_def sys_if_nametoindex_def caml_failwith_def)

lemma intf_del_unresolved:
  "if_nametoindex os (kernel w) (String_val intf) = 0 \<Longrightarrow>
   stub_bridge_intf_del os ifr0 fd name intf w =
     (Inl (Failure ''Device_not_found''),
      w\<lparr>calls := calls w @ [Call_if_nametoindex (String_val intf)]\<rparr>)"
  by (simp add: stub_bridge_intf_del_def sys_if_nametoindex_def caml_failwith_def)

lemma reports_bridge_add: "reports_ioctl os w ''bridge add'' (stub_bridge_add os fd name w)"
  by (simp add: reports_ioctl_def bridge_add_run calls_since_def ioctl_failed_def
      ioctl_errno_def split: prod.splits)

lemma reports_bridge_del: "reports_ioctl os w ''bridge del'' (stub_bridge_del os fd name w)"
  by (simp add: reports_ioctl_def bridge_del_run calls_since_def ioctl_failed_def
      ioctl_errno_def split: prod.splits)

lemma reports_intf_add:
  "reports_ioctl os w ''bridge intf add'' (stub_bridge_intf_add os ifr0 fd name intf w)"
proof (cases "if_nametoindex os (kernel w) (String_val intf) = 0")
  case True
  then show ?thesis
    by (simp add: reports_ioctl_def intf_add_unresolved calls_since_def ioctl_failed_def)
next
  case False
  then show ?thesis
    by (simp add: reports_ioctl_def intf_add_resolved calls_since_def ioctl_failed_def
        ioctl_errno_def split: prod.splits)
qed

lemma reports_intf_del:
  "reports_ioctl os w ''bridge intf del'' (stub_bridge_intf_del os ifr0 fd name intf w)"
proof (cases "if_nametoindex os (kernel w) (String_val intf) = 0")
  case True
  then show ?thesis
    by (simp add: reports_ioctl_def intf_del_unresolved calls_since_def ioctl_failed_def)
next
  case False
  then show ?thesis
    by (simp add: reports_ioctl_def intf_del_resolved calls_since_def ioctl_failed_def
        ioctl_errno_def split: prod.splits)
qed

lemma intf_add_refines:
  assumes "length (ifr_name ifr0) = IFNAMSIZ"
  shows "stub_bridge_intf_add os ifr0 fd name intf w =
           spec_intf_operation SIOCBRADDIF ''bridge intf add'' os fd name intf w"
proof (cases "if_nametoindex os (kernel w) (String_val intf) = 0")
  case True
  then show ?thesis
    using intf_add_unresolved [OF True, of ifr0 fd name]
    by (simp add: spec_intf_operation_def String_val_def)
next
  case False
  then show ?thesis
    using assms intf_add_resolved [OF False, of ifr0 fd name]
    by (simp add: spec_intf_operation_def String_val_def Int_val_def memset_full strncpy_def
        ifreq_update_all Let_def)
qed

lemma intf_del_refines:
  assumes "length (ifr_name ifr0) = IFNAMSIZ"
  shows "stub_bridge_intf_del os ifr0 fd name intf w =
           spec_intf_operation SIOCBRDELIF ''bridge intf del'' os fd name intf w"
proof (cases "if_nametoindex os (kernel w) (String_val intf) = 0")
  case True
  then show ?thesis
    using intf_del_unresolved [OF True, of ifr0 fd name]
    by (simp add: spec_intf_operation_def String_val_def)
next
  case False
  then show ?thesis
    using assms intf_del_resolved [OF False, of ifr0 fd name]
    by (simp add: spec_intf_operation_def String_val_def Int_val_def memset_full strncpy_def
        ifreq_update_all Let_def)
qed

lemma intf_add_not_found_iff:
  "(fst (stub_bridge_intf_add os ifr0 fd name intf w) = Inl (Failure ''Device_not_found''))
   = (if_nametoindex os (kernel w) (String_val intf) = 0)"
proof (cases "if_nametoindex os (kernel w) (String_val intf) = 0")
  case True
  then show ?thesis by (simp add: intf_add_unresolved)
next
  case False
  then show ?thesis by (simp add: intf_add_resolved split: prod.splits)
qed

lemma intf_del_not_found_iff:
  "(fst (stub_bridge_intf_del os ifr0 fd name intf w) = Inl (Failure ''Device_not_found''))
   = (if_nametoindex os (kernel w) (String_val intf) = 0)"
proof (cases "if_nametoindex os (kernel w) (String_val intf) = 0")
  case True
  then show ?thesis by (simp add: intf_del_unresolved)
next
  case False
  then show ?thesis by (simp add: intf_del_resolved split: prod.splits)
qed

lemma intf_ifreqs_same:
  "ifreqs_passed (calls_since w (snd (stub_bridge_intf_del os ifr0 fd name intf w))) =
   ifreqs_passed (calls_since w (snd (stub_bridge_intf_add os ifr0 fd name intf w)))"
proof (cases "if_nametoindex os (kernel w) (String_val intf) = 0")
  case True
  then show ?thesis by (simp add: intf_add_unresolved intf_del_unresolved)
next
  case False
  then show ?thesis
    by (simp add: intf_add_resolved intf_del_resolved calls_since_def split: prod.splits)
qed

lemma intf_resolutions_same:
  "filter (\<lambda>c. \<not> is_ioctl c) (calls_since w (snd (stub_bridge_intf_del os ifr0 fd name intf w))) =
   filter (\<lambda>c. \<not> is_ioctl c) (calls_since w (snd (stub_bridge_intf_add os ifr0 fd name intf w)))"
proof (cases "if_nametoindex os (kernel w) (String_val intf) = 0")
  case True
  then show ?thesis by (simp add: intf_add_unresolved intf_del_unresolved)
next
  case False
  then show ?thesis
    by (simp add: intf_add_resolved intf_del_resolved calls_since_def split: prod.splits)
qed

subsection \<open>An interface that does not resolve\<close>

text \<open>
  C1. When the interface name resolves to index zero, \<open>stub_bridge_intf_add\<close> and
  \<open>stub_bridge_intf_del\<close> raise \<open>Failure "Device_not_found"\<close>, which is not the
  failure of a kernel request; the only call made is the name resolution, so no
  \<open>ioctl\<close> is issued, and the kernel state is the one the stub started in.
\<close>

theorem intf_unresolved_device_not_found:
  assumes "if_nametoindex os (kernel w) (String_val intf) = 0"
  shows "stub_bridge_intf_add os ifr0 fd name intf w =
           (Inl (Failure ''Device_not_found''),
            w\<lparr>calls := calls w @ [Call_if_nametoindex (String_val intf)]\<rparr>)
       \<and> stub_bridge_intf_del os ifr0 fd name intf w =
           (Inl (Failure ''Device_not_found''),
            w\<lparr>calls := calls w @ [Call_if_nametoindex (String_val intf)]\<rparr>)
       \<and> (\<forall>r \<in> {stub_bridge_intf_add os ifr0 fd name intf w,
                  stub_bridge_intf_del os ifr0 fd name intf w}.
            kernel (snd r) = kernel w
          \<and> filter is_ioctl (calls_since w (snd r)) = []
          \<and> (\<forall>S t. fst r \<noteq> Inl (IoctlError S t)))"
  using assms
  by (simp add: stub_bridge_intf_add_def stub_bridge_intf_del_def sys_if_nametoindex_def
      caml_failwith_def calls_since_def)

theorem intf_unresolved_device_not_found_witness:
  "if_nametoindex sim_os (kernel sim_world) (String_val ''nosuch-iface'') = 0
   \<and> stub_bridge_intf_add sim_os sim_stack 3 ''br0'' ''nosuch-iface'' sim_world =
       (Inl (Failure ''Device_not_found''),
        \<lparr>kernel = [''br0''], calls = [Call_if_nametoindex ''nosuch-iface'']\<rparr>)
   \<and> stub_bridge_intf_del sim_os sim_stack 3 ''br0'' ''nosuch-iface'' sim_world =
       (Inl (Failure ''Device_not_found''),
        \<lparr>kernel = [''br0''], calls = [Call_if_nametoindex ''nosuch-iface'']\<rparr>)"
proof -
  have h: "if_nametoindex sim_os (kernel sim_world) (String_val ''nosuch-iface'') = 0"
    by (simp add: sim_os_def sim_if_nametoindex_def c_str_def NUL_def String_val_def)
  show ?thesis
    using h intf_unresolved_device_not_found [OF h, of sim_stack 3 "''br0''"]
    by (simp add: sim_world_def String_val_def)
qed

subsection \<open>The request record of attach and detach\<close>

text \<open>
  C3. When the interface name resolves (index not zero), \<open>stub_bridge_intf_add\<close> and
  \<open>stub_bridge_intf_del\<close> make two calls, the resolution and then one \<open>ioctl\<close>
  on the caller's descriptor, and the record handed to that \<open>ioctl\<close> has a name
  field of \<open>IFNAMSIZ\<close> bytes, which \<open>memset\<close> first sets to zero bytes throughout
  and into which \<open>strncpy\<close>, bounded by \<open>IFNAMSIZ\<close>, then copies the bridge name,
  and an index field that holds the index the interface name resolved to.
\<close>

theorem intf_request_record:
  assumes "if_nametoindex os (kernel w) (String_val intf) \<noteq> 0"
    and "length (ifr_name ifr0) = IFNAMSIZ"
  shows "memset (ifr_name ifr0) NUL IFNAMSIZ = replicate IFNAMSIZ NUL
   \<and> calls_since w (snd (stub_bridge_intf_add os ifr0 fd name intf w)) =
       [Call_if_nametoindex (String_val intf),
        Call_ioctl (Int_val fd) SIOCBRADDIF (Arg_ifreq
          \<lparr>ifr_name = strncpy (replicate IFNAMSIZ NUL) (String_val name) IFNAMSIZ,
           ifr_ifindex = if_nametoindex os (kernel w) (String_val intf)\<rparr>)]
   \<and> calls_since w (snd (stub_bridge_intf_del os ifr0 fd name intf w)) =
       [Call_if_nametoindex (String_val intf),
        Call_ioctl (Int_val fd) SIOCBRDELIF (Arg_ifreq
          \<lparr>ifr_name = strncpy (replicate IFNAMSIZ NUL) (String_val name) IFNAMSIZ,
           ifr_ifindex = if_nametoindex os (kernel w) (String_val intf)\<rparr>)]
   \<and> length (strncpy (replicate IFNAMSIZ NUL) (String_val name) IFNAMSIZ) = IFNAMSIZ"
  using assms
  by (simp add: memset_full strncpy_length intf_add_calls intf_del_calls)

theorem intf_request_record_witness:
  "if_nametoindex sim_os (kernel sim_world) (String_val ''eth0'') \<noteq> 0
   \<and> length (ifr_name sim_stack) = IFNAMSIZ
   \<and> calls_since sim_world (snd (stub_bridge_intf_add sim_os sim_stack 3 ''br0'' ''eth0'' sim_world)) =
       [Call_if_nametoindex ''eth0'',
        Call_ioctl 3 SIOCBRADDIF (Arg_ifreq
          \<lparr>ifr_name = ''br0'' @ replicate 13 NUL, ifr_ifindex = 2\<rparr>)]
   \<and> calls_since sim_world (snd (stub_bridge_intf_del sim_os sim_stack 3 ''br0'' ''eth0'' sim_world)) =
       [Call_if_nametoindex ''eth0'',
        Call_ioctl 3 SIOCBRDELIF (Arg_ifreq
          \<lparr>ifr_name = ''br0'' @ replicate 13 NUL, ifr_ifindex = 2\<rparr>)]"
proof -
  have h1: "if_nametoindex sim_os (kernel sim_world) (String_val ''eth0'') \<noteq> 0"
    by (simp add: sim_os_def sim_if_nametoindex_def c_str_def NUL_def String_val_def)
  have h2: "length (ifr_name sim_stack) = IFNAMSIZ"
    by (simp add: sim_stack_def IFNAMSIZ_def)
  have i: "if_nametoindex sim_os (kernel sim_world) (String_val ''eth0'') = 2"
    by (simp add: sim_os_def sim_if_nametoindex_def c_str_def NUL_def String_val_def)
  have s: "strncpy (replicate IFNAMSIZ NUL) (String_val ''br0'') IFNAMSIZ = ''br0'' @ replicate 13 NUL"
    by (simp add: strncpy_def c_str_def NUL_def String_val_def IFNAMSIZ_def)
  show ?thesis
    using h1 h2 intf_request_record [OF h1 h2, of 3 "''br0''"]
    by (simp add: i s Int_val_def) (simp add: String_val_def)
qed

subsection \<open>The name field, by the length of the bridge name\<close>

text \<open>
  The length of the bridge name is the length C gives it, the number of bytes of the
  string at \<open>String_val name\<close> before its first zero byte, which is what
  \<open>strncpy\<close> reads; for a name that holds no zero byte it is the length of the OCaml
  string (\<open>c_str_id\<close>).
\<close>

text \<open>
  C2. When the interface resolves and the bridge name is \<open>IFNAMSIZ\<close> bytes long or
  longer, the name field of the record that \<open>stub_bridge_intf_add\<close> and
  \<open>stub_bridge_intf_del\<close> hand to \<open>ioctl\<close> is the first \<open>IFNAMSIZ\<close> bytes of
  the name: the copy fills the whole field and the field holds no zero byte, the
  zero fill before the copy notwithstanding.
\<close>

theorem long_name_not_terminated:
  assumes "if_nametoindex os (kernel w) (String_val intf) \<noteq> 0"
    and "length (ifr_name ifr0) = IFNAMSIZ"
    and "IFNAMSIZ \<le> length (c_str (String_val name))"
  shows "ifreqs_passed (calls_since w (snd (stub_bridge_intf_add os ifr0 fd name intf w))) =
           [\<lparr>ifr_name = take IFNAMSIZ (String_val name),
             ifr_ifindex = if_nametoindex os (kernel w) (String_val intf)\<rparr>]
       \<and> ifreqs_passed (calls_since w (snd (stub_bridge_intf_del os ifr0 fd name intf w))) =
           [\<lparr>ifr_name = take IFNAMSIZ (String_val name),
             ifr_ifindex = if_nametoindex os (kernel w) (String_val intf)\<rparr>]
       \<and> length (take IFNAMSIZ (String_val name)) = IFNAMSIZ
       \<and> NUL \<notin> set (take IFNAMSIZ (String_val name))"
proof -
  have cp: "strncpy (replicate IFNAMSIZ NUL) (String_val name) IFNAMSIZ =
            take IFNAMSIZ (String_val name)"
    using assms(3) by (simp add: strncpy_long)
  have "take IFNAMSIZ (String_val name) = take IFNAMSIZ (c_str (String_val name))"
    using assms(3) by (simp add: take_c_str)
  then have nul: "NUL \<notin> set (take IFNAMSIZ (String_val name))"
    by (simp add: take_c_str_no_NUL)
  have len: "length (take IFNAMSIZ (String_val name)) = IFNAMSIZ"
    using strncpy_length [of "replicate IFNAMSIZ NUL" IFNAMSIZ "String_val name"]
    by (simp add: cp)
  show ?thesis
    using nul len
    by (simp add: intf_add_calls [OF assms(1,2)] intf_del_calls [OF assms(1,2)] cp)
qed

theorem long_name_not_terminated_witness:
  "if_nametoindex sim_os (kernel sim_world) (String_val ''eth0'') \<noteq> 0
   \<and> length (ifr_name sim_stack) = IFNAMSIZ
   \<and> IFNAMSIZ \<le> length (c_str (String_val ''bridge-number-0001''))
   \<and> ifreqs_passed (calls_since sim_world
        (snd (stub_bridge_intf_add sim_os sim_stack 3 ''bridge-number-0001'' ''eth0'' sim_world))) =
       [\<lparr>ifr_name = ''bridge-number-00'', ifr_ifindex = 2\<rparr>]
   \<and> ifreqs_passed (calls_since sim_world
        (snd (stub_bridge_intf_del sim_os sim_stack 3 ''bridge-number-0001'' ''eth0'' sim_world))) =
       [\<lparr>ifr_name = ''bridge-number-00'', ifr_ifindex = 2\<rparr>]
   \<and> NUL \<notin> set ''bridge-number-00''"
proof -
  have h1: "if_nametoindex sim_os (kernel sim_world) (String_val ''eth0'') \<noteq> 0"
    by (simp add: sim_os_def sim_if_nametoindex_def c_str_def NUL_def String_val_def)
  have h2: "length (ifr_name sim_stack) = IFNAMSIZ"
    by (simp add: sim_stack_def IFNAMSIZ_def)
  have h3: "IFNAMSIZ \<le> length (c_str (String_val ''bridge-number-0001''))"
    by (simp add: c_str_def NUL_def String_val_def IFNAMSIZ_def)
  have i: "if_nametoindex sim_os (kernel sim_world) (String_val ''eth0'') = 2"
    by (simp add: sim_os_def sim_if_nametoindex_def c_str_def NUL_def String_val_def)
  have t: "take IFNAMSIZ (String_val ''bridge-number-0001'') = ''bridge-number-00''"
    by (simp add: String_val_def IFNAMSIZ_def)
  show ?thesis
    using h1 h2 h3 long_name_not_terminated [OF h1 h2 h3, of 3]
    by (simp add: i t)
qed

text \<open>
  C9. When the interface resolves and the bridge name is shorter than \<open>IFNAMSIZ\<close>
  bytes, the name field of the record that \<open>stub_bridge_intf_add\<close> and
  \<open>stub_bridge_intf_del\<close> hand to \<open>ioctl\<close> is the bytes of the name followed by
  zero bytes up to \<open>IFNAMSIZ\<close>; \<open>strncpy\<close> writes that padding itself, so the
  copy gives the same field with and without the \<open>memset\<close> before it.
\<close>

theorem short_name_zero_padded:
  assumes "if_nametoindex os (kernel w) (String_val intf) \<noteq> 0"
    and "length (ifr_name ifr0) = IFNAMSIZ"
    and "length (c_str (String_val name)) < IFNAMSIZ"
  shows "ifreqs_passed (calls_since w (snd (stub_bridge_intf_add os ifr0 fd name intf w))) =
           [\<lparr>ifr_name = c_str (String_val name)
                @ replicate (IFNAMSIZ - length (c_str (String_val name))) NUL,
             ifr_ifindex = if_nametoindex os (kernel w) (String_val intf)\<rparr>]
       \<and> ifreqs_passed (calls_since w (snd (stub_bridge_intf_del os ifr0 fd name intf w))) =
           [\<lparr>ifr_name = c_str (String_val name)
                @ replicate (IFNAMSIZ - length (c_str (String_val name))) NUL,
             ifr_ifindex = if_nametoindex os (kernel w) (String_val intf)\<rparr>]
       \<and> strncpy (ifr_name ifr0) (String_val name) IFNAMSIZ =
           strncpy (memset (ifr_name ifr0) NUL IFNAMSIZ) (String_val name) IFNAMSIZ"
proof -
  have cp: "strncpy (replicate IFNAMSIZ NUL) (String_val name) IFNAMSIZ =
            c_str (String_val name) @ replicate (IFNAMSIZ - length (c_str (String_val name))) NUL"
    using assms(3) by (simp add: strncpy_short)
  have red: "strncpy (ifr_name ifr0) (String_val name) IFNAMSIZ =
             strncpy (memset (ifr_name ifr0) NUL IFNAMSIZ) (String_val name) IFNAMSIZ"
    using assms(2) by (simp add: memset_full strncpy_ignores_dest [of "ifr_name ifr0" IFNAMSIZ "replicate IFNAMSIZ NUL"])
  show ?thesis
    using red
    by (simp add: intf_add_calls [OF assms(1,2)] intf_del_calls [OF assms(1,2)] cp)
qed

theorem short_name_zero_padded_witness:
  "if_nametoindex sim_os (kernel sim_world) (String_val ''eth0'') \<noteq> 0
   \<and> length (ifr_name sim_stack) = IFNAMSIZ
   \<and> length (c_str (String_val ''br0'')) < IFNAMSIZ
   \<and> ifreqs_passed (calls_since sim_world
        (snd (stub_bridge_intf_add sim_os sim_stack 3 ''br0'' ''eth0'' sim_world))) =
       [\<lparr>ifr_name = ''br0'' @ replicate 13 NUL, ifr_ifindex = 2\<rparr>]
   \<and> ifreqs_passed (calls_since sim_world
        (snd (stub_bridge_intf_del sim_os sim_stack 3 ''br0'' ''eth0'' sim_world))) =
       [\<lparr>ifr_name = ''br0'' @ replicate 13 NUL, ifr_ifindex = 2\<rparr>]"
proof -
  have h1: "if_nametoindex sim_os (kernel sim_world) (String_val ''eth0'') \<noteq> 0"
    by (simp add: sim_os_def sim_if_nametoindex_def c_str_def NUL_def String_val_def)
  have h2: "length (ifr_name sim_stack) = IFNAMSIZ"
    by (simp add: sim_stack_def IFNAMSIZ_def)
  have h3: "length (c_str (String_val ''br0'')) < IFNAMSIZ"
    by (simp add: c_str_def NUL_def String_val_def IFNAMSIZ_def)
  have i: "if_nametoindex sim_os (kernel sim_world) (String_val ''eth0'') = 2"
    by (simp add: sim_os_def sim_if_nametoindex_def c_str_def NUL_def String_val_def)
  have c: "c_str (String_val ''br0'') = ''br0''"
    by (simp add: c_str_def NUL_def String_val_def)
  show ?thesis
    using h1 h2 h3 short_name_zero_padded [OF h1 h2 h3, of 3]
    by (simp add: i c IFNAMSIZ_def)
qed

subsection \<open>Failures of the kernel request\<close>

text \<open>
  C4, as stated, fails: "an operation returns success if and only if its kernel
  request did not fail". \<open>stub_bridge_intf_add\<close> on an interface name that does not
  resolve does not return success, and no kernel request of it failed, since it issued
  none.
\<close>

theorem success_iff_no_failure_counterexample:
  "\<not> ((fst (stub_bridge_intf_add sim_os sim_stack 3 ''br0'' ''nosuch-iface'' sim_world) = Inr ())
      = (filter (ioctl_failed sim_os (kernel sim_world))
           (calls_since sim_world
              (snd (stub_bridge_intf_add sim_os sim_stack 3 ''br0'' ''nosuch-iface'' sim_world)))
         = []))"
proof -
  have "if_nametoindex sim_os (kernel sim_world) (String_val ''nosuch-iface'') = 0"
    by (simp add: sim_defs)
  then show ?thesis
    by (simp add: intf_add_unresolved calls_since_def ioctl_failed_def)
qed

text \<open>
  C4, amended. In each of the four operations a kernel request that fails raises
  \<open>IoctlError\<close> with the label of the operation, one of the four distinct strings
  "bridge add", "bridge del", "bridge intf add" and "bridge intf del", and the text of
  the \<open>errno\<close> of the request; and the operation returns unit if and only if it issued
  its kernel request and the request did not fail. (\<open>stub_bridge_intf_add\<close> and
  \<open>stub_bridge_intf_del\<close> issue none when the interface does not resolve.)
\<close>

theorem ioctl_failure_raises_IoctlError:
  "reports_ioctl os w ''bridge add'' (stub_bridge_add os fd name w)
   \<and> reports_ioctl os w ''bridge del'' (stub_bridge_del os fd name w)
   \<and> reports_ioctl os w ''bridge intf add'' (stub_bridge_intf_add os ifr0 fd name intf w)
   \<and> reports_ioctl os w ''bridge intf del'' (stub_bridge_intf_del os ifr0 fd name intf w)
   \<and> distinct [''bridge add'', ''bridge del'', ''bridge intf add'', ''bridge intf del'']"
  by (simp add: reports_bridge_add reports_bridge_del reports_intf_add reports_intf_del)

theorem ioctl_failure_raises_IoctlError_witness:
  "ioctl_failed sim_os (kernel sim_world) (Call_ioctl 3 SIOCBRADDBR (Arg_string ''br0''))
   \<and> fst (stub_bridge_add sim_os 3 ''br0'' sim_world) = Inl (IoctlError ''bridge add'' ''File exists'')
   \<and> \<not> ioctl_failed sim_os (kernel sim_world) (Call_ioctl 3 SIOCBRDELBR (Arg_string ''br0''))
   \<and> fst (stub_bridge_del sim_os 3 ''br0'' sim_world) = Inr ()
   \<and> fst (stub_bridge_intf_add sim_os sim_stack 3 ''br1'' ''eth0'' sim_world) =
       Inl (IoctlError ''bridge intf add'' ''No such device'')
   \<and> fst (stub_bridge_intf_del sim_os sim_stack 3 ''br0'' ''eth0'' sim_world) = Inr ()"
proof -
  have i: "if_nametoindex sim_os (kernel sim_world) (String_val ''eth0'') \<noteq> 0"
    by (simp add: sim_defs)
  have c1: "calls_since sim_world (snd (stub_bridge_add sim_os 3 ''br0'' sim_world)) =
              [Call_ioctl 3 SIOCBRADDBR (Arg_string ''br0'')]"
    by (simp add: bridge_add_run calls_since_def split: prod.splits) (simp add: sim_defs)
  have c2: "calls_since sim_world (snd (stub_bridge_del sim_os 3 ''br0'' sim_world)) =
              [Call_ioctl 3 SIOCBRDELBR (Arg_string ''br0'')]"
    by (simp add: bridge_del_run calls_since_def split: prod.splits) (simp add: sim_defs)
  have c3: "calls_since sim_world
              (snd (stub_bridge_intf_add sim_os sim_stack 3 ''br1'' ''eth0'' sim_world)) =
              [Call_if_nametoindex ''eth0'',
               Call_ioctl 3 SIOCBRADDIF (Arg_ifreq \<lparr>ifr_name = ''br1'' @ replicate 13 NUL, ifr_ifindex = 2\<rparr>)]"
    by (simp add: intf_add_calls [OF i] sim_stack_def IFNAMSIZ_def) (simp add: sim_defs strncpy_def)
  have c4: "calls_since sim_world
              (snd (stub_bridge_intf_del sim_os sim_stack 3 ''br0'' ''eth0'' sim_world)) =
              [Call_if_nametoindex ''eth0'',
               Call_ioctl 3 SIOCBRDELIF (Arg_ifreq \<lparr>ifr_name = ''br0'' @ replicate 13 NUL, ifr_ifindex = 2\<rparr>)]"
    by (simp add: intf_del_calls [OF i] sim_stack_def IFNAMSIZ_def) (simp add: sim_defs strncpy_def)
  have f1: "ioctl_failed sim_os (kernel sim_world) (Call_ioctl 3 SIOCBRADDBR (Arg_string ''br0''))"
    and e1: "ioctl_errno sim_os (kernel sim_world) (Call_ioctl 3 SIOCBRADDBR (Arg_string ''br0'')) = 17"
    and f2: "\<not> ioctl_failed sim_os (kernel sim_world) (Call_ioctl 3 SIOCBRDELBR (Arg_string ''br0''))"
    and f3: "ioctl_failed sim_os (kernel sim_world)
              (Call_ioctl 3 SIOCBRADDIF (Arg_ifreq \<lparr>ifr_name = ''br1'' @ replicate 13 NUL, ifr_ifindex = 2\<rparr>))"
    and e3: "ioctl_errno sim_os (kernel sim_world)
              (Call_ioctl 3 SIOCBRADDIF (Arg_ifreq \<lparr>ifr_name = ''br1'' @ replicate 13 NUL, ifr_ifindex = 2\<rparr>)) = 19"
    and f4: "\<not> ioctl_failed sim_os (kernel sim_world)
              (Call_ioctl 3 SIOCBRDELIF (Arg_ifreq \<lparr>ifr_name = ''br0'' @ replicate 13 NUL, ifr_ifindex = 2\<rparr>))"
    by (simp_all add: ioctl_failed_def ioctl_errno_def sim_defs)
  have s: "strerror sim_os 17 = ''File exists''" "strerror sim_os 19 = ''No such device''"
    by (simp_all add: sim_os_def sim_strerror_def)
  note t0 = ioctl_failure_raises_IoctlError [of sim_os sim_world 3 "''br0''" sim_stack "''eth0''"]
  note t1 = ioctl_failure_raises_IoctlError [of sim_os sim_world 3 "''br1''" sim_stack "''eth0''"]
  from t0 have "reports_ioctl sim_os sim_world ''bridge add'' (stub_bridge_add sim_os 3 ''br0'' sim_world)"
    by simp
  then have r1: "fst (stub_bridge_add sim_os 3 ''br0'' sim_world) =
                   Inl (IoctlError ''bridge add'' ''File exists'')"
    by (simp add: reports_ioctl_def c1 f1 e1 s)
  from t0 have "reports_ioctl sim_os sim_world ''bridge del'' (stub_bridge_del sim_os 3 ''br0'' sim_world)"
    by simp
  then have r2: "fst (stub_bridge_del sim_os 3 ''br0'' sim_world) = Inr ()"
    by (simp add: reports_ioctl_def c2 f2)
  from t1 have "reports_ioctl sim_os sim_world ''bridge intf add''
                  (stub_bridge_intf_add sim_os sim_stack 3 ''br1'' ''eth0'' sim_world)"
    by simp
  then have r3: "fst (stub_bridge_intf_add sim_os sim_stack 3 ''br1'' ''eth0'' sim_world) =
                   Inl (IoctlError ''bridge intf add'' ''No such device'')"
    using f3 e3 by (simp add: reports_ioctl_def c3 s)
  from t0 have "reports_ioctl sim_os sim_world ''bridge intf del''
                  (stub_bridge_intf_del sim_os sim_stack 3 ''br0'' ''eth0'' sim_world)"
    by simp
  then have r4: "fst (stub_bridge_intf_del sim_os sim_stack 3 ''br0'' ''eth0'' sim_world) = Inr ()"
    using f4 by (simp add: reports_ioctl_def c4)
  show ?thesis
    using f1 f2 r1 r2 r3 r4 by simp
qed

subsection \<open>Detach against attach\<close>

text \<open>
  C5. \<open>stub_bridge_intf_add\<close> and \<open>stub_bridge_intf_del\<close> are the same procedure
  \<open>spec_intf_operation\<close>, run with \<open>SIOCBRADDIF\<close> and "bridge intf add" by the
  one and with \<open>SIOCBRDELIF\<close> and "bridge intf del" by the other. For every
  descriptor, bridge name and interface name, they fail with
  \<open>Failure "Device_not_found"\<close> on the same condition, make the same resolution call
  and hand the same record (name field and index) to \<open>ioctl\<close>.
\<close>

theorem detach_mirrors_attach:
  assumes "length (ifr_name ifr0) = IFNAMSIZ"
  shows "stub_bridge_intf_add os ifr0 fd name intf w =
           spec_intf_operation SIOCBRADDIF ''bridge intf add'' os fd name intf w
       \<and> stub_bridge_intf_del os ifr0 fd name intf w =
           spec_intf_operation SIOCBRDELIF ''bridge intf del'' os fd name intf w
       \<and> (fst (stub_bridge_intf_del os ifr0 fd name intf w) = Inl (Failure ''Device_not_found''))
         = (fst (stub_bridge_intf_add os ifr0 fd name intf w) = Inl (Failure ''Device_not_found''))
       \<and> filter (\<lambda>c. \<not> is_ioctl c)
           (calls_since w (snd (stub_bridge_intf_del os ifr0 fd name intf w))) =
         filter (\<lambda>c. \<not> is_ioctl c)
           (calls_since w (snd (stub_bridge_intf_add os ifr0 fd name intf w)))
       \<and> ifreqs_passed (calls_since w (snd (stub_bridge_intf_del os ifr0 fd name intf w))) =
         ifreqs_passed (calls_since w (snd (stub_bridge_intf_add os ifr0 fd name intf w)))"
proof (intro conjI)
  show "stub_bridge_intf_add os ifr0 fd name intf w =
          spec_intf_operation SIOCBRADDIF ''bridge intf add'' os fd name intf w"
    using assms by (rule intf_add_refines)
  show "stub_bridge_intf_del os ifr0 fd name intf w =
          spec_intf_operation SIOCBRDELIF ''bridge intf del'' os fd name intf w"
    using assms by (rule intf_del_refines)
  show "(fst (stub_bridge_intf_del os ifr0 fd name intf w) = Inl (Failure ''Device_not_found''))
      = (fst (stub_bridge_intf_add os ifr0 fd name intf w) = Inl (Failure ''Device_not_found''))"
    by (simp only: intf_add_not_found_iff intf_del_not_found_iff)
  show "filter (\<lambda>c. \<not> is_ioctl c)
          (calls_since w (snd (stub_bridge_intf_del os ifr0 fd name intf w))) =
        filter (\<lambda>c. \<not> is_ioctl c)
          (calls_since w (snd (stub_bridge_intf_add os ifr0 fd name intf w)))"
    by (rule intf_resolutions_same)
  show "ifreqs_passed (calls_since w (snd (stub_bridge_intf_del os ifr0 fd name intf w))) =
        ifreqs_passed (calls_since w (snd (stub_bridge_intf_add os ifr0 fd name intf w)))"
    by (rule intf_ifreqs_same)
qed

theorem detach_mirrors_attach_witness:
  "length (ifr_name sim_stack) = IFNAMSIZ
   \<and> stub_bridge_intf_add sim_os sim_stack 3 ''br0'' ''eth0'' sim_world =
       (Inr (), \<lparr>kernel = [''br0''],
                 calls = [Call_if_nametoindex ''eth0'',
                          Call_ioctl 3 SIOCBRADDIF
                            (Arg_ifreq \<lparr>ifr_name = ''br0'' @ replicate 13 NUL, ifr_ifindex = 2\<rparr>)]\<rparr>)
   \<and> stub_bridge_intf_del sim_os sim_stack 3 ''br0'' ''eth0'' sim_world =
       (Inr (), \<lparr>kernel = [''br0''],
                 calls = [Call_if_nametoindex ''eth0'',
                          Call_ioctl 3 SIOCBRDELIF
                            (Arg_ifreq \<lparr>ifr_name = ''br0'' @ replicate 13 NUL, ifr_ifindex = 2\<rparr>)]\<rparr>)"
proof -
  have h: "length (ifr_name sim_stack) = IFNAMSIZ"
    by (simp add: sim_stack_def IFNAMSIZ_def)
  have a: "spec_intf_operation SIOCBRADDIF ''bridge intf add'' sim_os 3 ''br0'' ''eth0'' sim_world =
       (Inr (), \<lparr>kernel = [''br0''],
                 calls = [Call_if_nametoindex ''eth0'',
                          Call_ioctl 3 SIOCBRADDIF
                            (Arg_ifreq \<lparr>ifr_name = ''br0'' @ replicate 13 NUL, ifr_ifindex = 2\<rparr>)]\<rparr>)"
    by (simp add: spec_intf_operation_def sim_defs)
  have d: "spec_intf_operation SIOCBRDELIF ''bridge intf del'' sim_os 3 ''br0'' ''eth0'' sim_world =
       (Inr (), \<lparr>kernel = [''br0''],
                 calls = [Call_if_nametoindex ''eth0'',
                          Call_ioctl 3 SIOCBRDELIF
                            (Arg_ifreq \<lparr>ifr_name = ''br0'' @ replicate 13 NUL, ifr_ifindex = 2\<rparr>)]\<rparr>)"
    by (simp add: spec_intf_operation_def sim_defs)
  show ?thesis
    using h detach_mirrors_attach [OF h, of sim_os 3 "''br0''" "''eth0''" sim_world]
    by (simp only: a d)
qed

subsection \<open>The calls of an operation, in order\<close>

text \<open>
  C7. \<open>stub_bridge_add\<close> and \<open>stub_bridge_del\<close> make one call, an \<open>ioctl\<close>, on
  every path. \<open>stub_bridge_intf_add\<close> and \<open>stub_bridge_intf_del\<close> first make one
  name-resolution call and then, when the index is not zero, one \<open>ioctl\<close>; when
  they return unit the calls they made are exactly a resolution followed by an
  \<open>ioctl\<close>.
\<close>

theorem one_ioctl_after_resolution:
  "calls_since w (snd (stub_bridge_add os fd name w)) =
     [Call_ioctl (Int_val fd) SIOCBRADDBR (Arg_string (String_val name))]
   \<and> calls_since w (snd (stub_bridge_del os fd name w)) =
     [Call_ioctl (Int_val fd) SIOCBRDELBR (Arg_string (String_val name))]
   \<and> calls_since w (snd (stub_bridge_intf_add os ifr0 fd name intf w)) =
     Call_if_nametoindex (String_val intf) #
     (if if_nametoindex os (kernel w) (String_val intf) = 0 then []
      else [Call_ioctl (Int_val fd) SIOCBRADDIF
             (Arg_ifreq (ifr0\<lparr>ifr_name := strncpy (memset (ifr_name ifr0) NUL IFNAMSIZ)
                                             (String_val name) IFNAMSIZ,
                               ifr_ifindex := if_nametoindex os (kernel w) (String_val intf)\<rparr>))])
   \<and> calls_since w (snd (stub_bridge_intf_del os ifr0 fd name intf w)) =
     Call_if_nametoindex (String_val intf) #
     (if if_nametoindex os (kernel w) (String_val intf) = 0 then []
      else [Call_ioctl (Int_val fd) SIOCBRDELIF
             (Arg_ifreq (ifr0\<lparr>ifr_name := strncpy (memset (ifr_name ifr0) NUL IFNAMSIZ)
                                             (String_val name) IFNAMSIZ,
                               ifr_ifindex := if_nametoindex os (kernel w) (String_val intf)\<rparr>))])
   \<and> (fst (stub_bridge_intf_add os ifr0 fd name intf w) = Inr () \<longrightarrow>
        map is_ioctl (calls_since w (snd (stub_bridge_intf_add os ifr0 fd name intf w))) =
          [False, True])
   \<and> (fst (stub_bridge_intf_del os ifr0 fd name intf w) = Inr () \<longrightarrow>
        map is_ioctl (calls_since w (snd (stub_bridge_intf_del os ifr0 fd name intf w))) =
          [False, True])"
proof (cases "if_nametoindex os (kernel w) (String_val intf) = 0")
  case True
  then show ?thesis
    by (simp add: bridge_add_run bridge_del_run intf_add_unresolved intf_del_unresolved
        calls_since_def split: prod.splits)
next
  case False
  then show ?thesis
    by (simp add: bridge_add_run bridge_del_run intf_add_resolved intf_del_resolved
        calls_since_def split: prod.splits)
qed

theorem one_ioctl_after_resolution_witness:
  "fst (stub_bridge_intf_add sim_os sim_stack 3 ''br0'' ''eth0'' sim_world) = Inr ()
   \<and> map is_ioctl (calls_since sim_world
        (snd (stub_bridge_intf_add sim_os sim_stack 3 ''br0'' ''eth0'' sim_world))) = [False, True]
   \<and> fst (stub_bridge_intf_del sim_os sim_stack 3 ''br0'' ''eth0'' sim_world) = Inr ()
   \<and> map is_ioctl (calls_since sim_world
        (snd (stub_bridge_intf_del sim_os sim_stack 3 ''br0'' ''eth0'' sim_world))) = [False, True]
   \<and> calls_since sim_world (snd (stub_bridge_add sim_os 3 ''br1'' sim_world)) =
        [Call_ioctl 3 SIOCBRADDBR (Arg_string ''br1'')]
   \<and> calls_since sim_world (snd (stub_bridge_del sim_os 3 ''br1'' sim_world)) =
        [Call_ioctl 3 SIOCBRDELBR (Arg_string ''br1'')]"
proof -
  have i: "if_nametoindex sim_os (kernel sim_world) (String_val ''eth0'') \<noteq> 0"
    by (simp add: sim_defs)
  have a: "fst (stub_bridge_intf_add sim_os sim_stack 3 ''br0'' ''eth0'' sim_world) = Inr ()"
    by (simp add: intf_add_resolved [OF i] split: prod.splits) (simp add: sim_defs strncpy_def memset_def)
  have d: "fst (stub_bridge_intf_del sim_os sim_stack 3 ''br0'' ''eth0'' sim_world) = Inr ()"
    by (simp add: intf_del_resolved [OF i] split: prod.splits) (simp add: sim_defs strncpy_def memset_def)
  note t0 = one_ioctl_after_resolution [of sim_world sim_os 3 "''br0''" sim_stack "''eth0''"]
  note t1 = one_ioctl_after_resolution [of sim_world sim_os 3 "''br1''" sim_stack "''eth0''"]
  from t0 a d have m:
    "map is_ioctl (calls_since sim_world
        (snd (stub_bridge_intf_add sim_os sim_stack 3 ''br0'' ''eth0'' sim_world))) = [False, True]"
    "map is_ioctl (calls_since sim_world
        (snd (stub_bridge_intf_del sim_os sim_stack 3 ''br0'' ''eth0'' sim_world))) = [False, True]"
    by blast+
  from t1 have c:
    "calls_since sim_world (snd (stub_bridge_add sim_os 3 ''br1'' sim_world)) =
        [Call_ioctl 3 SIOCBRADDBR (Arg_string ''br1'')]"
    "calls_since sim_world (snd (stub_bridge_del sim_os 3 ''br1'' sim_world)) =
        [Call_ioctl 3 SIOCBRDELBR (Arg_string ''br1'')]"
    by (simp_all add: Int_val_def String_val_def)
  show ?thesis
    using a d m c by simp
qed

subsection \<open>Create and destroy hand the name over as it is\<close>

text \<open>
  C10. For every string, the empty one and those of \<open>IFNAMSIZ\<close> bytes or more
  included, \<open>stub_bridge_add\<close> and \<open>stub_bridge_del\<close> make the one call
  \<open>ioctl\<close> with the string itself as argument, without resolving, truncating or
  checking it; they return unit when \<open>ioctl\<close> does not fail and raise \<open>IoctlError\<close>
  when it does, and never raise \<open>Failure "Device_not_found"\<close>.
\<close>

theorem bridge_name_passed_verbatim:
  "calls_since w (snd (stub_bridge_add os fd name w)) = [Call_ioctl fd SIOCBRADDBR (Arg_string name)]
   \<and> calls_since w (snd (stub_bridge_del os fd name w)) = [Call_ioctl fd SIOCBRDELBR (Arg_string name)]
   \<and> fst (stub_bridge_add os fd name w) =
       (case ioctl os (kernel w) fd SIOCBRADDBR (Arg_string name) of
          (err, eno, k') \<Rightarrow>
            if err < 0 then Inl (IoctlError ''bridge add'' (strerror os eno)) else Inr ())
   \<and> fst (stub_bridge_del os fd name w) =
       (case ioctl os (kernel w) fd SIOCBRDELBR (Arg_string name) of
          (err, eno, k') \<Rightarrow>
            if err < 0 then Inl (IoctlError ''bridge del'' (strerror os eno)) else Inr ())
   \<and> fst (stub_bridge_add os fd name w) \<noteq> Inl (Failure ''Device_not_found'')
   \<and> fst (stub_bridge_del os fd name w) \<noteq> Inl (Failure ''Device_not_found'')"
  by (simp add: bridge_add_run bridge_del_run calls_since_def Int_val_def String_val_def
      split: prod.splits)

theorem bridge_name_passed_verbatim_witness:
  "calls_since sim_world (snd (stub_bridge_add sim_os 3 [] sim_world)) =
     [Call_ioctl 3 SIOCBRADDBR (Arg_string [])]
   \<and> calls_since sim_world (snd (stub_bridge_del sim_os 3 ''a-bridge-name-of-30-bytes-long'' sim_world)) =
     [Call_ioctl 3 SIOCBRDELBR (Arg_string ''a-bridge-name-of-30-bytes-long'')]"
  using bridge_name_passed_verbatim [of sim_world sim_os 3 "[]"]
    bridge_name_passed_verbatim [of sim_world sim_os 3 "''a-bridge-name-of-30-bytes-long''"]
  by blast

end
